theory Spec2Isabelle
  imports Main "HOL-Library.AList"
begin

section \<open>The filter: an embedding of filter\_rspamd.go\<close>

text \<open>
  The program reads the mail agent's event lines from standard input, keeps one
  session per connection, posts each finished message to the scoring service and
  writes the rewritten message and the decision to standard output.

  Go's run-time failures are values: an index out of range, a write to a nil map and
  a call of a nil function value are panics that end the process; a receive on a
  channel that no goroutine will ever send on blocks the event loop for good.
\<close>

datatype error = IndexOutOfRange | NilMapWrite | NilFuncCall | BlockedForever

subsection \<open>Library functions the program calls\<close>

text \<open>
  \<open>strings.Split(s, sep)\<close> for a one-byte separator: the pieces between the
  separators, at least one piece (the empty string gives one empty piece).
\<close>

fun strings_Split :: "string \<Rightarrow> char \<Rightarrow> string list" where
  "strings_Split [] sep = [[]]"
| "strings_Split (c # cs) sep =
     (if c = sep then [] # strings_Split cs sep
      else (case strings_Split cs sep of
              [] \<Rightarrow> [[c]]
            | p # ps \<Rightarrow> (c # p) # ps))"

fun strings_Join :: "string list \<Rightarrow> string \<Rightarrow> string" where
  "strings_Join [] sep = []"
| "strings_Join [x] sep = x"
| "strings_Join (x # y # ys) sep = x @ sep @ strings_Join (y # ys) sep"

text \<open>
  \<open>bufio.Scanner\<close> with its default split function \<open>ScanLines\<close>: the lines of
  the text without their end-of-line marker, which is one optional carriage return and a
  newline; a last line without a newline is returned when it is not empty. A line that
  does not fit the scanner's buffer of \<open>MaxScanTokenSize\<close> bytes together with its
  newline ends the scan, and the lines after it are not returned.
\<close>

definition MaxScanTokenSize :: nat where
  "MaxScanTokenSize = 64 * 1024"

definition dropCR :: "string \<Rightarrow> string" where
  "dropCR l = (if l \<noteq> [] \<and> last l = CHR 0x0D then butlast l else l)"

definition ScanLines :: "string \<Rightarrow> string list" where
  "ScanLines text =
     (let ps = strings_Split text CHR ''\<newline>'';
          ls = (if last ps = [] then butlast ps else ps)
      in map dropCR (takeWhile (\<lambda>l. length l < MaxScanTokenSize) ls))"

subsection \<open>Data\<close>

text \<open>
  The goroutine of \<open>dataOutput\<close> does two kinds of things: it prints a line on
  standard output, and it sends a value on its channel. A channel is unbuffered and has
  one sender, the goroutine that \<open>dataOutput\<close> started for it, so the state of a
  channel is what that goroutine still has to do: it is blocked at the send that heads
  the list, or it has finished when the list is empty.
\<close>

datatype effect = Printf string | ChanSend string

type_synonym chan = "effect list"

text \<open>
  \<open>ch\<close> and \<open>control\<close> are \<open>None\<close> where the Go value is \<open>nil\<close>. The field
  \<open>id\<close> of the source is \<open>id'\<close> here.
\<close>

record session =
  ch :: "chan option"
  control :: "(string \<rightharpoonup> string) option"
  id' :: string
  payload :: string

text \<open>
  The scores are \<open>float32\<close> in the source and are only ever formatted with
  \<open>%v\<close>; their type is a parameter, and the formatting is a function of the
  environment.
\<close>

record 'f rspamdResponse =
  Score :: 'f
  RequiredScore :: 'f
  Subject :: string
  Action :: string
  DKIMSig :: string

text \<open>
  A parsed message of \<open>net/mail\<close>: the header is a Go map from a key to its values,
  kept as an association list with distinct keys; the body is the text after the blank
  line.
\<close>

type_synonym header = "(string \<times> string list) list"

record message =
  Header :: header
  Body :: string

text \<open>
  The request of \<open>rspamdPost\<close>. Every key that the handlers store in
  \<open>control\<close> is in canonical form already and is added once, so the header of the
  request is the map itself.
\<close>

record request =
  req_verb :: string
  req_url :: string
  req_header :: "string \<rightharpoonup> string"
  req_body :: string

text \<open>
  What lies outside the program is a parameter of the model: the scoring service behind
  \<open>client.Do\<close> (an error, or the body of the response), the JSON decoder, the
  message parser \<open>mail.ReadMessage\<close>, the rendering of a score by \<open>%v\<close>, and
  the order in which Go ranges over the header map, which the language leaves open: a
  function that rearranges the entries. No theorem below depends on what these
  functions return.
\<close>

record 'f env =
  client_Do :: "request \<Rightarrow> string + string"
  json_Decode :: "string \<Rightarrow> string + 'f rspamdResponse"
  mail_ReadMessage :: "string \<Rightarrow> string + message"
  fmt_v :: "'f \<Rightarrow> string"
  range_Header :: "header \<Rightarrow> header"

text \<open>
  The effects of the program on the outside: the lines the logger \<open>stdout\<close> has
  written, each with its final newline, and the requests posted to the scoring service.
\<close>

record world =
  stdout :: "string list"
  posts :: "request list"

subsection \<open>The report handlers\<close>

definition linkConnect :: "session \<Rightarrow> string list \<Rightarrow> error + session" where
  "linkConnect s args =
     (if length args \<le> 8 then Inl IndexOutOfRange
      else
        let rdns = args ! 6; laddr = args ! 8 in
        (case control s of
           None \<Rightarrow> Inl NilMapWrite
         | Some c0 \<Rightarrow>
             let c1 = c0(''Pass'' \<mapsto> ''all'') in
             (case strings_Split laddr CHR '':'' of
                [] \<Rightarrow> Inl IndexOutOfRange
              | p0 # _ \<Rightarrow>
                  let c2 = (if p0 \<noteq> ''local'' then c1(''Ip'' \<mapsto> p0) else c1);
                      c3 = (if rdns \<noteq> '''' then c2(''Hostname'' \<mapsto> rdns) else c2)
                  in Inr (s\<lparr>control := Some c3\<rparr>))))"

definition linkIdentify :: "session \<Rightarrow> string list \<Rightarrow> error + session" where
  "linkIdentify s args =
     (if length args \<le> 6 then Inl IndexOutOfRange
      else (case control s of
              None \<Rightarrow> Inl NilMapWrite
            | Some c \<Rightarrow> Inr (s\<lparr>control := Some (c(''Helo'' \<mapsto> args ! 6))\<rparr>)))"

definition txBegin :: "session \<Rightarrow> string list \<Rightarrow> error + session" where
  "txBegin s args =
     (if length args \<le> 6 then Inl IndexOutOfRange
      else (case control s of
              None \<Rightarrow> Inl NilMapWrite
            | Some c \<Rightarrow> Inr (s\<lparr>control := Some (c(''Queue-Id'' \<mapsto> args ! 6))\<rparr>)))"

definition txMail :: "session \<Rightarrow> string list \<Rightarrow> error + session" where
  "txMail s args =
     (if length args \<le> 8 then Inl IndexOutOfRange
      else
        let mailFrom = args ! 7; status = args ! 8 in
        if status = ''ok'' then
          (case control s of
             None \<Rightarrow> Inl NilMapWrite
           | Some c \<Rightarrow> Inr (s\<lparr>control := Some (c(''From'' \<mapsto> mailFrom))\<rparr>))
        else Inr s)"

definition txRcpt :: "session \<Rightarrow> string list \<Rightarrow> error + session" where
  "txRcpt s args =
     (if length args \<le> 8 then Inl IndexOutOfRange
      else
        let rcptTo = args ! 7; status = args ! 8 in
        if status = ''ok'' then
          (case control s of
             None \<Rightarrow> Inl NilMapWrite
           | Some c \<Rightarrow> Inr (s\<lparr>control := Some (c(''Rcpt'' \<mapsto> rcptTo))\<rparr>))
        else Inr s)"

definition txData :: "session \<Rightarrow> string list \<Rightarrow> error + session" where
  "txData s args =
     (if length args \<le> 7 then Inl IndexOutOfRange
      else
        let status = args ! 7 in
        if status = ''ok'' then Inr (s\<lparr>control := None\<rparr>) else Inr s)"

definition txCleanup :: "session \<Rightarrow> string list \<Rightarrow> error + session" where
  "txCleanup s args = Inr (s\<lparr>control := None\<rparr>)"

subsection \<open>The scan and the reconstruction of the message\<close>

definition rspamdURL :: string where
  "rspamdURL = ''http://localhost:11333/checkv2''"

text \<open>
  \<open>rspamdPost\<close> builds one request and sends it; the model returns the request with
  the result. \<open>http.NewRequest\<close> cannot fail on the constant verb and address.
  Ranging over a nil map adds no header.
\<close>

definition rspamdPost ::
  "'f env \<Rightarrow> (string \<rightharpoonup> string) option \<Rightarrow> string \<Rightarrow> request \<times> (string + 'f rspamdResponse)" where
  "rspamdPost E hdrs data =
     (let req = \<lparr>req_verb = ''POST'', req_url = rspamdURL,
                 req_header = (case hdrs of None \<Rightarrow> Map.empty | Some h \<Rightarrow> h),
                 req_body = data\<rparr>
      in (req,
          (case client_Do E req of
             Inl err \<Rightarrow> Inl err
           | Inr body \<Rightarrow>
               (case json_Decode E body of
                  Inl err \<Rightarrow> Inl err
                | Inr rr \<Rightarrow> Inr rr))))"

definition dataline :: "string \<Rightarrow> string \<Rightarrow> string \<Rightarrow> string" where
  "dataline token i content =
     ''filter-dataline|'' @ token @ ''|'' @ i @ ''|'' @ content @ ''\<newline>''"

text \<open>The \<open>switch\<close> on the action: the header after it, and the reject reason.\<close>

definition switch_Action :: "'f env \<Rightarrow> 'f rspamdResponse \<Rightarrow> header \<Rightarrow> header \<times> string" where
  "switch_Action E resp h =
     (if Action resp = ''add header'' then
        (AList.update ''X-Spam-Score''
           [fmt_v E (Score resp) @ '' / '' @ fmt_v E (RequiredScore resp)]
           (AList.update ''X-Spam'' [''yes''] h), '''')
      else if Action resp = ''rewrite subject'' then
        (AList.update ''Subject'' [Subject resp] h, '''')
      else if Action resp = ''reject'' then (h, ''550 message rejected'')
      else if Action resp = ''greylist'' then (h, ''421 greylisted'')
      else if Action resp = ''soft reject'' then (h, ''451 try again later'')
      else (h, ''''))"

text \<open>
  The body of the goroutine, given the result of \<open>rspamdPost\<close>: what it prints and
  sends, in order.
  The line that \<open>log.Printf\<close> writes to standard error is not part of the
  protocol with the mail agent and is left out.
\<close>

definition goroutine ::
  "'f env \<Rightarrow> string + 'f rspamdResponse \<Rightarrow> string \<Rightarrow> string \<Rightarrow> string \<Rightarrow> effect list" where
  "goroutine E posted token i data =
     (case posted of
        Inl err \<Rightarrow> [ChanSend ''421 Temporary failure'']
      | Inr resp \<Rightarrow>
          (case mail_ReadMessage E data of
             Inl err \<Rightarrow> [ChanSend ''421 Temporary failure'']
           | Inr m \<Rightarrow>
               (case switch_Action E resp (Header m) of
                  (h, rejectReason) \<Rightarrow>
                    (if DKIMSig resp \<noteq> ''''
                     then [Printf (dataline token i (''DKIM-Signature'' @ '': '' @ DKIMSig resp))]
                     else [])
                    @ map (\<lambda>(k, v). Printf (dataline token i (k @ '': '' @ strings_Join v '','')))
                        (range_Header E h)
                    @ [Printf (dataline token i '''')]
                    @ map (\<lambda>l. Printf (dataline token i l)) (ScanLines (Body m))
                    @ [Printf (dataline token i ''.''), ChanSend rejectReason])))"

text \<open>
  A goroutine runs until it blocks at a send: the lines it printed, and what is left of
  it. The model runs the goroutine as far as it can as soon as it is started, which is
  one of the schedules of the program; the lines of one goroutine come out in the order
  of the source in every schedule.
\<close>

fun run_goroutine :: "effect list \<Rightarrow> string list \<times> effect list" where
  "run_goroutine [] = ([], [])"
| "run_goroutine (Printf l # es) = (case run_goroutine es of (out, rest) \<Rightarrow> (l # out, rest))"
| "run_goroutine (ChanSend v # es) = ([], ChanSend v # es)"

definition dataOutput ::
  "'f env \<Rightarrow> (string \<rightharpoonup> string) option \<Rightarrow> string \<Rightarrow> string \<Rightarrow> string \<Rightarrow> world \<Rightarrow> chan \<times> world" where
  "dataOutput E headers token i data w =
     (let rq = rspamdPost E headers data;
          r = run_goroutine (goroutine E (snd rq) token i data)
      in (snd r, \<lparr>stdout = stdout w @ fst r, posts = posts w @ [fst rq]\<rparr>))"

text \<open>
  A receive \<open><-c\<close>: on a nil channel, and on a channel whose goroutine has finished,
  it blocks for good. Otherwise it takes the value of the pending send, and the goroutine
  runs on.
\<close>

definition chan_recv :: "chan option \<Rightarrow> error + (string \<times> chan \<times> string list)" where
  "chan_recv c =
     (case c of
        None \<Rightarrow> Inl BlockedForever
      | Some es \<Rightarrow>
          (case snd (run_goroutine es) of
             [] \<Rightarrow> Inl BlockedForever
           | Printf _ # _ \<Rightarrow> Inl BlockedForever
           | ChanSend v # rest \<Rightarrow>
               (case run_goroutine rest of
                  (out, rest') \<Rightarrow> Inr (v, rest', fst (run_goroutine es) @ out))))"

subsection \<open>The filter handlers\<close>

definition filterCommit :: "session \<Rightarrow> string list \<Rightarrow> world \<Rightarrow> error + session \<times> world" where
  "filterCommit s args w =
     (if length args \<le> 6 then Inl IndexOutOfRange
      else
        let token = args ! 6 in
        (case chan_recv (ch s) of
           Inl e \<Rightarrow> Inl e
         | Inr (reason, c, out) \<Rightarrow>
             if reason \<noteq> '''' then
               Inr (s\<lparr>ch := Some c\<rparr>,
                    w\<lparr>stdout := stdout w @ out @
                       [''filter-result|'' @ token @ ''|'' @ id' s @ ''|reject|'' @ reason
                          @ ''\<newline>'']\<rparr>)
             else
               Inr (s\<lparr>ch := Some c\<rparr>,
                    w\<lparr>stdout := stdout w @ out @
                       [''filter-result|'' @ token @ ''|'' @ id' s @ ''|proceed\<newline>'']\<rparr>)))"

definition filterDataLine ::
  "'f env \<Rightarrow> session \<Rightarrow> string list \<Rightarrow> world \<Rightarrow> error + session \<times> world" where
  "filterDataLine E s args w =
     (if length args \<le> 7 then Inl IndexOutOfRange
      else
        let token = args ! 6; line = args ! 7 in
        if line \<noteq> ''.'' then Inr (s\<lparr>payload := payload s @ line @ ''\<newline>''\<rparr>, w)
        else
          (case dataOutput E (control s) token (id' s) (payload s) w of
             (c, w') \<Rightarrow> Inr (s\<lparr>ch := Some c\<rparr>, w')))"

subsection \<open>The registry and the event loop\<close>

type_synonym 'f handler = "'f env \<Rightarrow> session \<Rightarrow> string list \<Rightarrow> world \<Rightarrow> error + session \<times> world"

text \<open>A report handler touches the session only.\<close>

definition report_fn :: "(session \<Rightarrow> string list \<Rightarrow> error + session) \<Rightarrow> 'f handler" where
  "report_fn f E s args w = (case f s args of Inl e \<Rightarrow> Inl e | Inr s' \<Rightarrow> Inr (s', w))"

definition registry :: "string \<Rightarrow> (string \<times> 'f handler option) option" where
  "registry event =
     map_of
     [(''link-connect'', ''report'', Some (report_fn linkConnect)),
      (''link-disconnect'', ''report'', None),
      (''link-identify'', ''report'', Some (report_fn linkIdentify)),
      (''tx-begin'', ''report'', Some (report_fn txBegin)),
      (''tx-data'', ''report'', Some (report_fn txData)),
      (''tx-mail'', ''report'', Some (report_fn txMail)),
      (''tx-rcpt'', ''report'', Some (report_fn txRcpt)),
      (''tx-commit'', ''report'', Some (report_fn txCleanup)),
      (''tx-rollback'', ''report'', Some (report_fn txCleanup)),
      (''commit'', ''filter'', Some (\<lambda>E. filterCommit)),
      (''data-line'', ''filter'', Some filterDataLine)] event"

text \<open>
  \<open>registry[event].fn\<close>: a key that is not in the map gives the zero value, whose
  \<open>fn\<close> is nil.
\<close>

definition registry_fn :: "string \<Rightarrow> 'f handler option" where
  "registry_fn event = (case registry event of None \<Rightarrow> None | Some (kind, fn) \<Rightarrow> fn)"

record state =
  sessions :: "string \<rightharpoonup> session"
  io :: world

text \<open>
  The \<open>default\<close> branch of the loop, which the connect branch falls through to. The
  session is shared by pointer in the source: what the handler did to it is the
  session of the identifier afterwards.
\<close>

definition dispatch :: "'f env \<Rightarrow> state \<Rightarrow> string \<Rightarrow> string \<Rightarrow> string list \<Rightarrow> error + state" where
  "dispatch E st event i fields' =
     (case sessions st i of
        None \<Rightarrow> Inr st
      | Some s \<Rightarrow>
          (case registry_fn event of
             None \<Rightarrow> Inl NilFuncCall
           | Some fn \<Rightarrow>
               (case fn E s fields' (io st) of
                  Inl e \<Rightarrow> Inl e
                | Inr (s', w') \<Rightarrow> Inr \<lparr>sessions = (sessions st)(i \<mapsto> s'), io = w'\<rparr>)))"

text \<open>
  The session that the connect branch creates: an empty map, an empty builder, and no
  channel yet.
\<close>

definition new_session :: "string \<Rightarrow> session" where
  "new_session i = \<lparr>ch = None, control = Some Map.empty, id' = i, payload = ''''\<rparr>"

text \<open>One turn of the loop of \<open>main\<close>, on one line of standard input.\<close>

definition step :: "'f env \<Rightarrow> state \<Rightarrow> string \<Rightarrow> error + state" where
  "step E st text =
     (let fields' = strings_Split text CHR ''|'' in
      if length fields' \<le> 5 then Inl IndexOutOfRange
      else
        let event = fields' ! 4; i = fields' ! 5 in
        if event = ''link-disconnect'' then Inr (st\<lparr>sessions := (sessions st)(i := None)\<rparr>)
        else if event = ''link-connect'' then
          dispatch E (st\<lparr>sessions := (sessions st)(i \<mapsto> new_session i)\<rparr>) event i fields'
        else dispatch E st event i fields')"

text \<open>
  The loop over the lines that \<open>stdin.Text()\<close> returns, one after the other,
  without their end-of-line marker; a panic or a receive that blocks for good ends it,
  and the lines after it are not read.
\<close>

fun main_loop :: "'f env \<Rightarrow> state \<Rightarrow> string list \<Rightarrow> error + state" where
  "main_loop E st [] = Inr st"
| "main_loop E st (l # ls) =
     (case step E st l of
        Inl e \<Rightarrow> Inl e
      | Inr st' \<Rightarrow> main_loop E st' ls)"

text \<open>
  The state in which the loop starts. The registration lines that \<open>main\<close> prints
  before it reads the first line are left out of \<open>stdout\<close>.
\<close>

definition init :: state where
  "init = \<lparr>sessions = Map.empty, io = \<lparr>stdout = [], posts = []\<rparr>\<rparr>"

subsection \<open>A concrete environment\<close>

text \<open>
  The theorems below hold for every environment. The concrete runs need one: a scoring
  service that always gives the same result, and a reader that does what
  \<open>mail.ReadMessage\<close> does on plain input: header lines \<open>Key: value\<close> up to
  the first blank line, the body after it, and an error when the text ends before a
  blank line or a header line has no colon.
\<close>

definition header_line :: "string \<Rightarrow> (string \<times> string) option" where
  "header_line l =
     (if CHR '':'' \<in> set l
      then Some (takeWhile (\<lambda>c. c \<noteq> CHR '':'') l,
                 dropWhile (\<lambda>c. c = CHR '' '') (tl (dropWhile (\<lambda>c. c \<noteq> CHR '':'') l)))
      else None)"

fun read_header :: "string list \<Rightarrow> (header \<times> string list) option" where
  "read_header [] = None"
| "read_header [l] = None"
| "read_header (l # l' # ls) =
     (if l = [] then Some ([], l' # ls)
      else (case header_line l of
              None \<Rightarrow> None
            | Some (k, v) \<Rightarrow>
                (case read_header (l' # ls) of
                   None \<Rightarrow> None
                 | Some (h, b) \<Rightarrow>
                     Some ((k, v # (case map_of h k of None \<Rightarrow> [] | Some vs \<Rightarrow> vs))
                             # AList.delete k h, b))))"

definition plain_ReadMessage :: "string \<Rightarrow> string + message" where
  "plain_ReadMessage data =
     (case read_header (strings_Split data CHR ''\<newline>'') of
        None \<Rightarrow> Inl ''malformed message''
      | Some (h, b) \<Rightarrow> Inr \<lparr>Header = h, Body = strings_Join b ''\<newline>''\<rparr>)"

text \<open>
  The environment whose scoring service fails with the error given, or answers with the
  verdict given. A score is kept as its rendering.
\<close>

definition service_env :: "string + string rspamdResponse \<Rightarrow> string env" where
  "service_env posted =
     \<lparr>client_Do = (\<lambda>rq. case posted of Inl e \<Rightarrow> Inl e | Inr r \<Rightarrow> Inr ''{}''),
      json_Decode = (\<lambda>b. posted),
      mail_ReadMessage = plain_ReadMessage,
      fmt_v = (\<lambda>s. s),
      range_Header = (\<lambda>h. h)\<rparr>"

definition verdict :: "string \<Rightarrow> string \<Rightarrow> string rspamdResponse" where
  "verdict a sig =
     \<lparr>Score = ''15'', RequiredScore = ''5'', Subject = ''[SPAM] hi'', Action = a,
      DKIMSig = sig\<rparr>"

subsection \<open>Notions the properties are stated with\<close>

text \<open>The decision lines of \<open>filterCommit\<close>.\<close>

definition reject_line :: "string \<Rightarrow> string \<Rightarrow> string \<Rightarrow> string" where
  "reject_line token i reason =
     ''filter-result|'' @ token @ ''|'' @ i @ ''|reject|'' @ reason @ ''\<newline>''"

definition proceed_line :: "string \<Rightarrow> string \<Rightarrow> string" where
  "proceed_line token i = ''filter-result|'' @ token @ ''|'' @ i @ ''|proceed\<newline>''"

text \<open>
  The header lines of a reconstruction: the signature line when the verdict has a
  signature, then the lines of the header after the \<open>switch\<close>.
\<close>

definition header_lines ::
  "'f env \<Rightarrow> 'f rspamdResponse \<Rightarrow> message \<Rightarrow> string \<Rightarrow> string \<Rightarrow> string list" where
  "header_lines E resp m token i =
     (if DKIMSig resp \<noteq> ''''
      then [dataline token i (''DKIM-Signature: '' @ DKIMSig resp)] else [])
     @ map (\<lambda>(k, v). dataline token i (k @ '': '' @ strings_Join v '',''))
         (range_Header E (fst (switch_Action E resp (Header m))))"

text \<open>
  A line of a well-formed body: it holds no newline, it does not end in a carriage
  return, and it is shorter than the scanner's buffer.
\<close>

definition wf_line :: "string \<Rightarrow> bool" where
  "wf_line l \<longleftrightarrow> CHR ''\<newline>'' \<notin> set l \<and> dropCR l = l \<and> length l < MaxScanTokenSize"

definition unlines :: "string list \<Rightarrow> string" where
  "unlines ls = concat (map (\<lambda>l. l @ ''\<newline>'') ls)"

text \<open>The scan of a message has failed: in transport, or in decoding the answer.\<close>

definition post_failed :: "'f env \<Rightarrow> request \<Rightarrow> bool" where
  "post_failed E rq =
     (case client_Do E rq of
        Inl err \<Rightarrow> True
      | Inr body \<Rightarrow> (case json_Decode E body of Inl err \<Rightarrow> True | Inr rr \<Rightarrow> False))"

text \<open>
  All the lines of a reconstruction: the header lines, the blank line, the lines of the
  body as the scanner returns them, and the end marker.
\<close>

definition message_lines ::
  "'f env \<Rightarrow> 'f rspamdResponse \<Rightarrow> message \<Rightarrow> string \<Rightarrow> string \<Rightarrow> string list" where
  "message_lines E resp m token i =
     header_lines E resp m token i
     @ [dataline token i '''']
     @ map (dataline token i) (ScanLines (Body m))
     @ [dataline token i ''.'']"

text \<open>The values that a goroutine sends on its channel, in order.\<close>

fun sends :: "effect list \<Rightarrow> string list" where
  "sends [] = []"
| "sends (Printf l # es) = sends es"
| "sends (ChanSend v # es) = v # sends es"

text \<open>
  The fields of a line, and the lines that carry the identifier \<open>i\<close> and are not a
  connect event.
\<close>

definition fields_of :: "string \<Rightarrow> string list" where
  "fields_of text = strings_Split text CHR ''|''"

definition later_event :: "string \<Rightarrow> string \<Rightarrow> bool" where
  "later_event i text \<longleftrightarrow>
     5 < length (fields_of text) \<and> fields_of text ! 5 = i
     \<and> fields_of text ! 4 \<noteq> ''link-connect''"

text \<open>A connect event for the identifier \<open>i\<close>.\<close>

definition reconnects :: "string \<Rightarrow> string \<Rightarrow> bool" where
  "reconnects i text \<longleftrightarrow>
     5 < length (fields_of text) \<and> fields_of text ! 5 = i
     \<and> fields_of text ! 4 = ''link-connect''"

text \<open>
  The number of fields that the handler of an event indexes: the highest index of
  \<open>args\<close> in its body, plus one. The handler of the two transaction-end events
  indexes none.
\<close>

definition fields_needed :: "string \<Rightarrow> nat" where
  "fields_needed event =
     (if event \<in> {''link-connect'', ''tx-mail'', ''tx-rcpt''} then 9
      else if event \<in> {''tx-data'', ''data-line''} then 8
      else if event \<in> {''link-identify'', ''tx-begin'', ''commit''} then 7
      else 0)"

text \<open>
  A line reaches a handler when it is a connect event, or when its identifier has a
  session and it is not a disconnect event.
\<close>

definition dispatched :: "state \<Rightarrow> string \<Rightarrow> bool" where
  "dispatched st text \<longleftrightarrow>
     fields_of text ! 4 = ''link-connect''
     \<or> (fields_of text ! 4 \<noteq> ''link-disconnect''
        \<and> sessions st (fields_of text ! 5) \<noteq> None)"

subsection \<open>The lines of the concrete runs\<close>

definition connect_line :: string where
  "connect_line =
     ''report|0.5|0|smtp-in|link-connect|s1|mx.example|pass|192.0.2.1:25|192.0.2.9:3025''"

definition data_line :: "string \<Rightarrow> string" where
  "data_line l = ''filter|0.5|0|smtp-in|data-line|s1|t1|'' @ l"

definition commit_line :: string where
  "commit_line = ''filter|0.5|0|smtp-in|commit|s1|t2''"

text \<open>
  The scenario of the specification: connect, identify, transaction-begin, mail-from,
  recipient-to, data-begin, three lines of data and the end marker.
\<close>

definition scenario :: "string list" where
  "scenario =
     [connect_line,
      ''report|0.5|0|smtp-in|link-identify|s1|mx.example'',
      ''report|0.5|0|smtp-in|tx-begin|s1|Q1'',
      ''report|0.5|0|smtp-in|tx-mail|s1|Q1|a@x|ok'',
      ''report|0.5|0|smtp-in|tx-rcpt|s1|Q1|b@y|ok'',
      ''report|0.5|0|smtp-in|tx-data|s1|Q1|ok'',
      data_line ''Subject: hi'',
      data_line '''',
      data_line ''body'',
      data_line ''.'']"

section \<open>Properties\<close>

subsection \<open>Facts about the library functions and the goroutine\<close>

text \<open>
  A split has a first piece, so \<open>p[0]\<close> in \<open>linkConnect\<close> is in range, and
  the first piece is the text before the first separator.
\<close>

lemma strings_Split_not_Nil: "strings_Split s c \<noteq> []"
  by (induction s) (auto split: list.splits)

lemma strings_Split_before:
  "c \<notin> set b \<Longrightarrow> strings_Split (b @ c # rest) c = b # strings_Split rest c"
  by (induction b) (auto split: list.splits)

lemma strings_Split_unlines:
  "\<forall>l \<in> set ls. CHR ''\<newline>'' \<notin> set l \<Longrightarrow>
     strings_Split (unlines ls) CHR ''\<newline>'' = ls @ [[]]"
proof (induction ls)
  case Nil
  then show ?case by (simp add: unlines_def)
next
  case (Cons l ls)
  have "unlines (l # ls) = l @ CHR ''\<newline>'' # unlines ls"
    by (simp add: unlines_def)
  with Cons show ?case by (simp add: strings_Split_before)
qed

lemma ScanLines_unlines:
  assumes "\<forall>l \<in> set ls. wf_line l"
  shows "ScanLines (unlines ls) = ls"
proof -
  have 1: "strings_Split (unlines ls) CHR ''\<newline>'' = ls @ [[]]"
    using assms by (intro strings_Split_unlines) (simp add: wf_line_def)
  have 2: "takeWhile (\<lambda>l. length l < MaxScanTokenSize) ls = ls"
    using assms by (simp add: wf_line_def takeWhile_eq_all_conv)
  have 3: "map dropCR ls = ls"
    using assms by (simp add: wf_line_def map_idI)
  show ?thesis by (simp add: ScanLines_def 1 2 3)
qed

lemma run_goroutine_prints:
  "run_goroutine (map Printf ls @ es) = (ls @ fst (run_goroutine es), snd (run_goroutine es))"
  by (induction ls) (auto split: prod.splits)

lemma goroutine_failed:
  "goroutine E (Inl err) token i data = [ChanSend ''421 Temporary failure'']"
  by (simp add: goroutine_def)

lemma goroutine_malformed:
  "mail_ReadMessage E data = Inl err \<Longrightarrow>
     goroutine E posted token i data = [ChanSend ''421 Temporary failure'']"
  by (simp add: goroutine_def split: sum.splits)

lemma goroutine_parsed:
  assumes "mail_ReadMessage E data = Inr m"
  shows "goroutine E (Inr resp) token i data
         = map Printf (message_lines E resp m token i)
           @ [ChanSend (snd (switch_Action E resp (Header m)))]"
  using assms
  by (simp add: goroutine_def message_lines_def header_lines_def split: prod.splits)

lemma run_goroutine_parsed:
  assumes "mail_ReadMessage E data = Inr m"
  shows "run_goroutine (goroutine E (Inr resp) token i data)
         = (message_lines E resp m token i,
            [ChanSend (snd (switch_Action E resp (Header m)))])"
  by (simp add: goroutine_parsed [OF assms] run_goroutine_prints)

lemma dataOutput_parsed:
  assumes "snd (rspamdPost E hdrs data) = Inr resp" "mail_ReadMessage E data = Inr m"
  shows "dataOutput E hdrs token i data w
         = ([ChanSend (snd (switch_Action E resp (Header m)))],
            \<lparr>stdout = stdout w @ message_lines E resp m token i,
             posts = posts w @ [fst (rspamdPost E hdrs data)]\<rparr>)"
  using assms by (simp add: dataOutput_def Let_def run_goroutine_parsed)

lemma rspamdPost_failed:
  "post_failed E (fst (rspamdPost E hdrs data)) \<Longrightarrow>
     \<exists>err. snd (rspamdPost E hdrs data) = Inl err"
  by (auto simp: post_failed_def rspamdPost_def Let_def split: sum.splits)

lemma filterCommit_pending:
  assumes "6 < length cargs" "ch s = Some [ChanSend reason]"
  shows "filterCommit s cargs w
         = Inr (s\<lparr>ch := Some []\<rparr>,
                w\<lparr>stdout := stdout w @
                   [if reason \<noteq> '''' then reject_line (cargs ! 6) (id' s) reason
                    else proceed_line (cargs ! 6) (id' s)]\<rparr>)"
  using assms
  by (simp add: filterCommit_def chan_recv_def reject_line_def proceed_line_def)

subsection \<open>A failed scan is a temporary failure\<close>

text \<open>
  Claim C2. When the request to the scoring service fails, in transport or in decoding
  the answer, the end marker of the message leaves the reason
  \<open>421 Temporary failure\<close> pending on the session's channel and prints nothing, and
  the commit handler then prints one line, the reject decision with that reason: it does
  not print a proceed decision.
\<close>

theorem scan_failure_rejects:
  assumes fail: "post_failed E (fst (rspamdPost E (control s) (payload s)))"
    and dot: "7 < length dargs" "dargs ! 7 = ''.''"
    and tok: "6 < length cargs"
  shows "\<exists>s1 w1 s2.
           filterDataLine E s dargs w = Inr (s1, w1)
         \<and> ch s1 = Some [ChanSend ''421 Temporary failure'']
         \<and> stdout w1 = stdout w
         \<and> filterCommit s1 cargs w1
             = Inr (s2, w1\<lparr>stdout := stdout w
                            @ [reject_line (cargs ! 6) (id' s) ''421 Temporary failure'']\<rparr>)"
proof -
  from rspamdPost_failed [OF fail] obtain err
    where err: "snd (rspamdPost E (control s) (payload s)) = Inl err" ..
  show ?thesis
    using dot tok
    by (simp add: filterDataLine_def dataOutput_def Let_def err goroutine_failed
        filterCommit_def chan_recv_def reject_line_def)
qed

theorem scan_failure_rejects_witness:
  "\<exists>s1 w1 s2.
     filterDataLine (service_env (Inl ''connection refused''))
       ((new_session ''s1'')\<lparr>payload := ''Subject: hi\<newline>\<newline>body\<newline>''\<rparr>)
       (fields_of (data_line ''.'')) \<lparr>stdout = [], posts = []\<rparr> = Inr (s1, w1)
   \<and> ch s1 = Some [ChanSend ''421 Temporary failure'']
   \<and> stdout w1 = []
   \<and> filterCommit s1 (fields_of commit_line) w1
       = Inr (s2, w1\<lparr>stdout := [''filter-result|t2|s1|reject|421 Temporary failure\<newline>'']\<rparr>)"
proof -
  let ?E = "service_env (Inl ''connection refused'')"
  let ?s = "(new_session ''s1'')\<lparr>payload := ''Subject: hi\<newline>\<newline>body\<newline>''\<rparr>"
  have fail: "post_failed ?E (fst (rspamdPost ?E (control ?s) (payload ?s)))"
    by (simp add: post_failed_def service_env_def)
  have dot: "7 < length (fields_of (data_line ''.''))" "fields_of (data_line ''.'') ! 7 = ''.''"
    by (simp_all add: fields_of_def data_line_def)
  have tok: "6 < length (fields_of commit_line)"
    by (simp add: fields_of_def commit_line_def)
  have "fields_of commit_line ! 6 = ''t2''"
    by (simp add: fields_of_def commit_line_def)
  then show ?thesis
    using scan_failure_rejects [OF fail dot tok, of "\<lparr>stdout = [], posts = []\<rparr>"]
    by (simp add: reject_line_def new_session_def)
qed

subsection \<open>The action of the verdict decides\<close>

text \<open>
  Claim C3, as amended. When the verdict of the scan has been decoded and the text of
  the message parses into a header and a body, the commit handler prints one decision:
  for the action \<open>reject\<close> a reject with \<open>550 message rejected\<close>, for
  \<open>greylist\<close> a reject with \<open>421 greylisted\<close>, for \<open>soft reject\<close> a
  reject with \<open>451 try again later\<close>, and for every other action, the empty one,
  \<open>add header\<close> and \<open>rewrite subject\<close> among them, proceed.
\<close>

theorem verdict_decides:
  assumes post: "snd (rspamdPost E (control s) (payload s)) = Inr resp"
    and msg: "mail_ReadMessage E (payload s) = Inr m"
    and dot: "7 < length dargs" "dargs ! 7 = ''.''"
    and tok: "6 < length cargs"
  shows "\<exists>s1 w1 s2 d.
           filterDataLine E s dargs w = Inr (s1, w1)
         \<and> filterCommit s1 cargs w1 = Inr (s2, w1\<lparr>stdout := stdout w1 @ [d]\<rparr>)
         \<and> (Action resp = ''reject'' \<longrightarrow>
              d = reject_line (cargs ! 6) (id' s) ''550 message rejected'')
         \<and> (Action resp = ''greylist'' \<longrightarrow>
              d = reject_line (cargs ! 6) (id' s) ''421 greylisted'')
         \<and> (Action resp = ''soft reject'' \<longrightarrow>
              d = reject_line (cargs ! 6) (id' s) ''451 try again later'')
         \<and> (Action resp \<notin> {''reject'', ''greylist'', ''soft reject''} \<longrightarrow>
              d = proceed_line (cargs ! 6) (id' s))"
proof -
  let ?r = "snd (switch_Action E resp (Header m))"
  let ?w1 = "\<lparr>stdout = stdout w @ message_lines E resp m (dargs ! 6) (id' s),
              posts = posts w @ [fst (rspamdPost E (control s) (payload s))]\<rparr>"
  let ?d = "if ?r \<noteq> '''' then reject_line (cargs ! 6) (id' s) ?r
            else proceed_line (cargs ! 6) (id' s)"
  have 1: "filterDataLine E s dargs w = Inr (s\<lparr>ch := Some [ChanSend ?r]\<rparr>, ?w1)"
    using dot by (simp add: filterDataLine_def dataOutput_parsed [OF post msg])
  have 2: "filterCommit (s\<lparr>ch := Some [ChanSend ?r]\<rparr>) cargs ?w1
           = Inr (s\<lparr>ch := Some []\<rparr>, ?w1\<lparr>stdout := stdout ?w1 @ [?d]\<rparr>)"
    using filterCommit_pending [OF tok, of "s\<lparr>ch := Some [ChanSend ?r]\<rparr>" ?r ?w1] by simp
  have 3: "Action resp = ''reject'' \<longrightarrow>
             ?d = reject_line (cargs ! 6) (id' s) ''550 message rejected''"
    by (simp add: switch_Action_def)
  have 4: "Action resp = ''greylist'' \<longrightarrow>
             ?d = reject_line (cargs ! 6) (id' s) ''421 greylisted''"
    by (simp add: switch_Action_def)
  have 5: "Action resp = ''soft reject'' \<longrightarrow>
             ?d = reject_line (cargs ! 6) (id' s) ''451 try again later''"
    by (simp add: switch_Action_def)
  have 6: "Action resp \<notin> {''reject'', ''greylist'', ''soft reject''} \<longrightarrow>
             ?d = proceed_line (cargs ! 6) (id' s)"
    by (simp add: switch_Action_def)
  from 1 2 3 4 5 6 show ?thesis by blast
qed

theorem verdict_decides_witness:
  "\<exists>s1 w1 s2.
     filterDataLine (service_env (Inr (verdict ''greylist'' '''')))
       ((new_session ''s1'')\<lparr>payload := ''Subject: hi\<newline>\<newline>body\<newline>''\<rparr>)
       (fields_of (data_line ''.'')) \<lparr>stdout = [], posts = []\<rparr> = Inr (s1, w1)
   \<and> filterCommit s1 (fields_of commit_line) w1
       = Inr (s2, w1\<lparr>stdout := stdout w1 @ [''filter-result|t2|s1|reject|421 greylisted\<newline>'']\<rparr>)"
proof -
  let ?E = "service_env (Inr (verdict ''greylist'' ''''))"
  let ?s = "(new_session ''s1'')\<lparr>payload := ''Subject: hi\<newline>\<newline>body\<newline>''\<rparr>"
  let ?m = "\<lparr>Header = [(''Subject'', [''hi''])], Body = ''body\<newline>''\<rparr>"
  have post: "snd (rspamdPost ?E (control ?s) (payload ?s)) = Inr (verdict ''greylist'' '''')"
    by (simp add: rspamdPost_def service_env_def)
  have msg: "mail_ReadMessage ?E (payload ?s) = Inr ?m"
    by (simp add: service_env_def plain_ReadMessage_def header_line_def new_session_def)
  have dot: "7 < length (fields_of (data_line ''.''))" "fields_of (data_line ''.'') ! 7 = ''.''"
    by (simp_all add: fields_of_def data_line_def)
  have tok: "6 < length (fields_of commit_line)"
    by (simp add: fields_of_def commit_line_def)
  have t2: "fields_of commit_line ! 6 = ''t2''"
    by (simp add: fields_of_def commit_line_def)
  from verdict_decides [OF post msg dot tok, of "\<lparr>stdout = [], posts = []\<rparr>"]
  obtain s1 w1 s2 d where
    "filterDataLine ?E ?s (fields_of (data_line ''.'')) \<lparr>stdout = [], posts = []\<rparr> = Inr (s1, w1)"
    "filterCommit s1 (fields_of commit_line) w1 = Inr (s2, w1\<lparr>stdout := stdout w1 @ [d]\<rparr>)"
    "d = reject_line (fields_of commit_line ! 6) (id' ?s) ''421 greylisted''"
    by (auto simp: verdict_def)
  then show ?thesis
    by (simp add: t2 reject_line_def new_session_def)
qed

text \<open>
  The specification states this for every decoded verdict. A message whose first line
  is no header line does not parse, and its decision is the temporary failure whatever
  the verdict says: here the verdict is \<open>add header\<close>, and the decision is a reject.
\<close>

theorem verdict_decides_counterexample:
  "json_Decode (service_env (Inr (verdict ''add header'' ''''))) ''{}''
     = Inr (verdict ''add header'' '''')
   \<and> map_sum (\<lambda>e. e) (\<lambda>st. stdout (io st))
       (main_loop (service_env (Inr (verdict ''add header'' ''''))) init
          [connect_line, data_line ''hello'', data_line ''.'', commit_line])
     = Inr [''filter-result|t2|s1|reject|421 Temporary failure\<newline>'']"
  by (simp add: service_env_def) code_simp

subsection \<open>The body comes out as it went in\<close>

text \<open>
  Claim C4. When the message parses and its body is the lines \<open>ls\<close>, each a
  well-formed line followed by a newline, the reconstruction prints the header lines,
  the blank line, the lines \<open>ls\<close> unchanged and in their order, and the end marker.
  This holds for every verdict, so also for one that changes no header.
\<close>

theorem body_round_trip:
  assumes post: "snd (rspamdPost E hdrs data) = Inr resp"
    and msg: "mail_ReadMessage E data = Inr m"
    and body: "Body m = unlines ls"
    and wf: "\<forall>l \<in> set ls. wf_line l"
  shows "stdout (snd (dataOutput E hdrs token i data w))
         = stdout w @ header_lines E resp m token i
           @ [dataline token i '''']
           @ map (dataline token i) ls
           @ [dataline token i ''.'']"
  by (simp add: dataOutput_parsed [OF post msg] message_lines_def body ScanLines_unlines [OF wf])

theorem body_round_trip_witness:
  "stdout (snd (dataOutput (service_env (Inr (verdict '''' ''''))) None ''t1'' ''s1''
                  ''Subject: hi\<newline>\<newline>body\<newline>more\<newline>'' \<lparr>stdout = [], posts = []\<rparr>))
   = [''filter-dataline|t1|s1|Subject: hi\<newline>'',
      ''filter-dataline|t1|s1|\<newline>'',
      ''filter-dataline|t1|s1|body\<newline>'',
      ''filter-dataline|t1|s1|more\<newline>'',
      ''filter-dataline|t1|s1|.\<newline>'']"
proof -
  let ?E = "service_env (Inr (verdict '''' ''''))"
  let ?data = "''Subject: hi\<newline>\<newline>body\<newline>more\<newline>''"
  let ?m = "\<lparr>Header = [(''Subject'', [''hi''])], Body = ''body\<newline>more\<newline>''\<rparr>"
  have post: "snd (rspamdPost ?E None ?data) = Inr (verdict '''' '''')"
    by (simp add: rspamdPost_def service_env_def)
  have msg: "mail_ReadMessage ?E ?data = Inr ?m"
    by (simp add: service_env_def plain_ReadMessage_def header_line_def)
  have body: "Body ?m = unlines [''body'', ''more'']"
    by (simp add: unlines_def)
  have wf: "\<forall>l \<in> set [''body'', ''more'']. wf_line l"
    by (simp add: wf_line_def dropCR_def MaxScanTokenSize_def)
  show ?thesis
    using body_round_trip [OF post msg body wf, of "''t1''" "''s1''" "\<lparr>stdout = [], posts = []\<rparr>"]
    by (simp add: header_lines_def verdict_def switch_Action_def service_env_def dataline_def)
qed

subsection \<open>The signature comes first\<close>

text \<open>
  Claim C5. When the verdict has a signature that is not empty and the message parses,
  the first line that the reconstruction prints is the signature header, whatever the
  header of the message holds.
\<close>

theorem signature_first:
  assumes post: "snd (rspamdPost E hdrs data) = Inr resp"
    and msg: "mail_ReadMessage E data = Inr m"
    and sig: "DKIMSig resp \<noteq> ''''"
  shows "\<exists>rest. stdout (snd (dataOutput E hdrs token i data w))
           = stdout w @ dataline token i (''DKIM-Signature: '' @ DKIMSig resp) # rest"
  using sig
  by (simp add: dataOutput_parsed [OF post msg] message_lines_def header_lines_def)

theorem signature_first_witness:
  "\<exists>rest. stdout (snd (dataOutput (service_env (Inr (verdict '''' ''v=1; a=rsa-sha256'')))
                  None ''t1'' ''s1''
                  ''Subject: hi\<newline>Dkim-Signature: v=1; old\<newline>\<newline>body\<newline>''
                  \<lparr>stdout = [], posts = []\<rparr>))
     = ''filter-dataline|t1|s1|DKIM-Signature: v=1; a=rsa-sha256\<newline>'' # rest"
proof -
  let ?E = "service_env (Inr (verdict '''' ''v=1; a=rsa-sha256''))"
  let ?data = "''Subject: hi\<newline>Dkim-Signature: v=1; old\<newline>\<newline>body\<newline>''"
  let ?m = "\<lparr>Header = [(''Subject'', [''hi'']), (''Dkim-Signature'', [''v=1; old''])],
             Body = ''body\<newline>''\<rparr>"
  have post: "snd (rspamdPost ?E None ?data) = Inr (verdict '''' ''v=1; a=rsa-sha256'')"
    by (simp add: rspamdPost_def service_env_def)
  have msg: "mail_ReadMessage ?E ?data = Inr ?m"
    by (simp add: service_env_def plain_ReadMessage_def header_line_def)
  have sig: "DKIMSig (verdict '''' ''v=1; a=rsa-sha256'') \<noteq> ''''"
    by (simp add: verdict_def)
  show ?thesis
    using signature_first [OF post msg sig, of "''t1''" "''s1''" "\<lparr>stdout = [], posts = []\<rparr>"]
    by (simp add: verdict_def dataline_def)
qed

subsection \<open>Facts about the registry and the loop\<close>

lemma registry_fn_simps:
  "registry_fn ''link-connect'' = Some (report_fn linkConnect)"
  "registry_fn ''link-identify'' = Some (report_fn linkIdentify)"
  "registry_fn ''tx-begin'' = Some (report_fn txBegin)"
  "registry_fn ''tx-data'' = Some (report_fn txData)"
  "registry_fn ''tx-mail'' = Some (report_fn txMail)"
  "registry_fn ''tx-rcpt'' = Some (report_fn txRcpt)"
  "registry_fn ''tx-commit'' = Some (report_fn txCleanup)"
  "registry_fn ''tx-rollback'' = Some (report_fn txCleanup)"
  "registry_fn ''commit'' = Some (\<lambda>E. filterCommit)"
  "registry_fn ''data-line'' = Some filterDataLine"
  by (simp_all add: registry_fn_def registry_def)

lemma step_no_session:
  assumes "later_event i text" "sessions st i = None"
  shows "step E st text = Inr st"
  using assms
  by (simp add: later_event_def fields_of_def step_def dispatch_def Let_def fun_upd_idem)

lemma dispatch_sessions:
  assumes "dispatch E st ev j fs = Inr st'" "j \<noteq> i"
  shows "sessions st' i = sessions st i"
  using assms
  by (auto simp: dispatch_def split: option.splits sum.splits)

lemma step_keeps_absent:
  assumes absent: "sessions st i = None"
    and norec: "\<not> reconnects i text"
    and step: "step E st text = Inr st'"
  shows "sessions st' i = None"
proof -
  let ?fs = "fields_of text"
  let ?ev = "?fs ! 4" and ?j = "?fs ! 5"
  from step have len: "\<not> length ?fs \<le> 5"
    by (auto simp: step_def fields_of_def Let_def split: if_splits)
  show ?thesis
  proof (cases "?j = i")
    case True
    with norec len have "?ev \<noteq> ''link-connect''" by (simp add: reconnects_def)
    with True len have "later_event i text" by (simp add: later_event_def)
    from step_no_session [OF this absent, of E] step absent show ?thesis by simp
  next
    case False
    show ?thesis
    proof (cases "?ev = ''link-disconnect''")
      case True
      with step len absent show ?thesis
        by (auto simp: step_def fields_of_def Let_def)
    next
      case nodisc: False
      show ?thesis
      proof (cases "?ev = ''link-connect''")
        case True
        let ?st1 = "st\<lparr>sessions := (sessions st)(?j \<mapsto> new_session ?j)\<rparr>"
        from step len True have "dispatch E ?st1 ?ev ?j ?fs = Inr st'"
          by (simp add: step_def fields_of_def Let_def)
        from dispatch_sessions [OF this False] False absent show ?thesis by simp
      next
        case False2: False
        from step len nodisc False2 have "dispatch E st ?ev ?j ?fs = Inr st'"
          by (simp add: step_def fields_of_def Let_def)
        from dispatch_sessions [OF this False] absent show ?thesis by simp
      qed
    qed
  qed
qed

lemma main_loop_skips:
  assumes "sessions st i = None" "\<forall>l \<in> set ls. \<not> reconnects i l"
  shows "main_loop E st ls = main_loop E st (filter (\<lambda>l. \<not> later_event i l) ls)"
  using assms
proof (induction ls arbitrary: st)
  case Nil
  show ?case by simp
next
  case (Cons l ls)
  show ?case
  proof (cases "later_event i l")
    case True
    from step_no_session [OF True Cons.prems(1), of E] Cons show ?thesis by simp
  next
    case False
    show ?thesis
    proof (cases "step E st l")
      case (Inl e)
      with False show ?thesis by simp
    next
      case (Inr st')
      from Cons.prems have "\<not> reconnects i l" by simp
      from step_keeps_absent [OF Cons.prems(1) this Inr]
      have "sessions st' i = None" .
      with Cons have "main_loop E st' ls = main_loop E st' (filter (\<lambda>l. \<not> later_event i l) ls)"
        by simp
      with Inr False show ?thesis by simp
    qed
  qed
qed

lemma handler_payload:
  assumes "registry_fn ev = Some fn" "fn E s args w = Inr (s', w')"
  shows "payload s' = (if ev = ''data-line'' \<and> args ! 7 \<noteq> ''.''
                       then payload s @ args ! 7 @ ''\<newline>'' else payload s)"
  using assms
  by (auto simp: registry_fn_def registry_def report_fn_def linkConnect_def linkIdentify_def
      txBegin_def txMail_def txRcpt_def txData_def txCleanup_def filterCommit_def
      filterDataLine_def Let_def
      split: if_splits sum.splits option.splits list.splits prod.splits)

lemma handler_too_short:
  assumes "registry_fn ev = Some fn" "length args < fields_needed ev"
  shows "fn E s args w = Inl IndexOutOfRange"
  using assms
  by (auto simp: registry_fn_def registry_def report_fn_def linkConnect_def linkIdentify_def
      txBegin_def txMail_def txRcpt_def txData_def filterCommit_def
      filterDataLine_def fields_needed_def
      split: if_splits)

lemma fields_needed_registered:
  assumes "length args < fields_needed ev"
  shows "\<exists>fn. (registry_fn ev :: 'f handler option) = Some fn"
  using assms
  by (auto simp: registry_fn_def registry_def fields_needed_def split: if_splits)

lemma unregistered:
  assumes "(registry ev :: (string \<times> 'f handler option) option) = None"
  shows "(registry_fn ev :: 'f handler option) = None" "fields_needed ev = 0"
    "ev \<noteq> ''link-connect''"
  using assms
  by (auto simp: registry_fn_def registry_def fields_needed_def split: if_splits)

lemma dispatch_fatal:
  assumes "sessions st j = Some s"
    and "length fs < fields_needed ev
         \<or> (registry ev :: (string \<times> 'f handler option) option) = None"
  shows "dispatch (E :: 'f env) st ev j fs
         = Inl (if length fs < fields_needed ev then IndexOutOfRange else NilFuncCall)"
proof (cases "length fs < fields_needed ev")
  case True
  from fields_needed_registered [OF True] obtain fn :: "'f handler"
    where fn: "registry_fn ev = Some fn" ..
  from handler_too_short [OF fn True] have "fn E s fs (io st) = Inl IndexOutOfRange" .
  with assms(1) fn True show ?thesis by (simp add: dispatch_def)
next
  case False
  with assms(2) have "(registry ev :: (string \<times> 'f handler option) option) = None" by simp
  from unregistered(1) [OF this] assms(1) False show ?thesis
    by (simp add: dispatch_def)
qed

lemma goroutine_shape:
  "\<exists>pr v. goroutine E posted token i data = map Printf pr @ [ChanSend v]"
proof (cases posted)
  case (Inl err)
  then have "goroutine E posted token i data = map Printf [] @ [ChanSend ''421 Temporary failure'']"
    by (simp add: goroutine_failed)
  then show ?thesis by blast
next
  case (Inr resp)
  show ?thesis
  proof (cases "mail_ReadMessage E data")
    case (Inl err)
    then have "goroutine E posted token i data = map Printf [] @ [ChanSend ''421 Temporary failure'']"
      by (simp add: goroutine_malformed)
    then show ?thesis by blast
  next
    case m: (Inr m)
    show ?thesis
      unfolding Inr goroutine_parsed [OF m] by blast
  qed
qed

lemma sends_prints: "sends (map Printf pr @ es) = sends es"
  by (induction pr) simp_all

subsection \<open>The request of the scenario\<close>

text \<open>
  Claim C1. In the scenario the session has gathered the origin address, the announced
  name, the queue identifier, the sender and the recipient when the fifth line has been
  read. The data-begin line with status \<open>ok\<close> then sets \<open>control\<close> to nil, and
  the request that the end marker posts has the payload as its body and none of the five
  headers: \<open>txData\<close> drops what \<open>filterDataLine\<close> hands to
  \<open>dataOutput\<close> as the headers of the request.
\<close>

theorem scenario_request_drops_metadata:
  "map_sum (\<lambda>e. e)
     (\<lambda>st. map_option
             (\<lambda>s. map_option (\<lambda>c. map c [''Ip'', ''Helo'', ''Queue-Id'', ''From'', ''Rcpt''])
                    (control s))
             (sessions st ''s1''))
     (main_loop E init (take 5 scenario))
   = Inr (Some (Some [Some ''192.0.2.1'', Some ''mx.example'', Some ''Q1'', Some ''a@x'',
                      Some ''b@y'']))
   \<and> map_sum (\<lambda>e. e)
       (\<lambda>st. map (\<lambda>r. (req_body r,
                         map (req_header r) [''Ip'', ''Helo'', ''Queue-Id'', ''From'', ''Rcpt'']))
               (posts (io st)))
       (main_loop E init scenario)
     = Inr [(''Subject: hi\<newline>\<newline>body\<newline>'', [None, None, None, None, None])]"
proof (intro conjI)
  show "map_sum (\<lambda>e. e)
     (\<lambda>st. map_option
             (\<lambda>s. map_option (\<lambda>c. map c [''Ip'', ''Helo'', ''Queue-Id'', ''From'', ''Rcpt''])
                    (control s))
             (sessions st ''s1''))
     (main_loop E init (take 5 scenario))
   = Inr (Some (Some [Some ''192.0.2.1'', Some ''mx.example'', Some ''Q1'', Some ''a@x'',
                      Some ''b@y'']))"
    by (simp add: scenario_def connect_line_def data_line_def init_def step_def dispatch_def
        registry_fn_simps report_fn_def linkConnect_def linkIdentify_def txBegin_def
        txMail_def txRcpt_def new_session_def Let_def)
  show "map_sum (\<lambda>e. e)
       (\<lambda>st. map (\<lambda>r. (req_body r,
                         map (req_header r) [''Ip'', ''Helo'', ''Queue-Id'', ''From'', ''Rcpt'']))
               (posts (io st)))
       (main_loop E init scenario)
     = Inr [(''Subject: hi\<newline>\<newline>body\<newline>'', [None, None, None, None, None])]"
    by (simp add: scenario_def connect_line_def data_line_def init_def step_def dispatch_def
        registry_fn_simps report_fn_def linkConnect_def linkIdentify_def txBegin_def
        txMail_def txRcpt_def txData_def filterDataLine_def dataOutput_def rspamdPost_def
        new_session_def Let_def)
qed

subsection \<open>The payload is never reset\<close>

text \<open>
  Claim C6, as amended. The payload of a session only grows while the session lives: a
  data line that is not the end marker appends the line and a newline, and every other
  line that the loop accepts, the end marker that starts the scan among them, leaves the
  payload as it is. Only a connect event for the identifier, which makes a new session,
  starts from an empty payload. So the lines that arrive on a session after a scan are
  appended to the lines of the message before.
\<close>

theorem payload_append_only:
  assumes live: "sessions st i = Some s"
    and step: "step E st text = Inr st'"
    and after: "sessions st' i = Some s'"
    and same: "\<not> (fields_of text ! 4 = ''link-connect'' \<and> fields_of text ! 5 = i)"
  shows "payload s' =
           (if fields_of text ! 4 = ''data-line'' \<and> fields_of text ! 5 = i
               \<and> fields_of text ! 7 \<noteq> ''.''
            then payload s @ fields_of text ! 7 @ ''\<newline>'' else payload s)"
proof -
  let ?fs = "fields_of text"
  let ?ev = "?fs ! 4" and ?j = "?fs ! 5"
  from step have len: "\<not> length ?fs \<le> 5"
    by (auto simp: step_def fields_of_def Let_def split: if_splits)
  show ?thesis
  proof (cases "?ev = ''link-disconnect''")
    case True
    with step len have "st' = st\<lparr>sessions := (sessions st)(?j := None)\<rparr>"
      by (simp add: step_def fields_of_def Let_def)
    with live after have "s' = s" by (auto split: if_splits)
    with True show ?thesis by simp
  next
    case nodisc: False
    show ?thesis
    proof (cases "?j = i")
      case False
      have "sessions st' i = sessions st i"
        using step len nodisc False
        by (auto simp: step_def dispatch_def fields_of_def Let_def
            split: if_splits option.splits sum.splits)
      with live after False show ?thesis by simp
    next
      case True
      with same have noconn: "?ev \<noteq> ''link-connect''" by simp
      from step len nodisc noconn True live
      obtain fn w' where fn: "registry_fn ?ev = Some fn" "fn E s ?fs (io st) = Inr (s', w')"
        using after
        by (auto simp: step_def dispatch_def fields_of_def Let_def
            split: if_splits option.splits sum.splits)
      from handler_payload [OF fn] True show ?thesis by simp
    qed
  qed
qed

theorem payload_append_only_witness:
  "\<exists>st' s'.
     step (service_env (Inr (verdict '''' '''')))
       \<lparr>sessions = [''s1'' \<mapsto> (new_session ''s1'')\<lparr>payload := ''Subject: hi\<newline>\<newline>body\<newline>''\<rparr>],
        io = \<lparr>stdout = [], posts = []\<rparr>\<rparr>
       (data_line ''.'') = Inr st'
   \<and> sessions st' ''s1'' = Some s'
   \<and> payload s' = ''Subject: hi\<newline>\<newline>body\<newline>''"
proof -
  let ?E = "service_env (Inr (verdict '''' ''''))"
  let ?s = "(new_session ''s1'')\<lparr>payload := ''Subject: hi\<newline>\<newline>body\<newline>''\<rparr>"
  let ?st = "\<lparr>sessions = [''s1'' \<mapsto> ?s], io = \<lparr>stdout = [], posts = []\<rparr>\<rparr>"
  have fs: "fields_of (data_line ''.'')
            = [''filter'', ''0.5'', ''0'', ''smtp-in'', ''data-line'', ''s1'', ''t1'', ''.'']"
    by (simp add: fields_of_def data_line_def)
  have live: "sessions ?st ''s1'' = Some ?s" by simp
  have "\<exists>st' s'. step ?E ?st (data_line ''.'') = Inr st' \<and> sessions st' ''s1'' = Some s'"
    using fs
    by (simp add: step_def dispatch_def registry_fn_simps filterDataLine_def Let_def
        fields_of_def split: prod.splits)
  then obtain st' s' where st: "step ?E ?st (data_line ''.'') = Inr st'"
    and s': "sessions st' ''s1'' = Some s'" by blast
  have same: "\<not> (fields_of (data_line ''.'') ! 4 = ''link-connect''
                \<and> fields_of (data_line ''.'') ! 5 = ''s1'')"
    by (simp add: fs)
  from payload_append_only [OF live st s' same]
  have "payload s' = ''Subject: hi\<newline>\<newline>body\<newline>''"
    by (simp add: fs new_session_def)
  with st s' show ?thesis by blast
qed

text \<open>
  The specification has the buffer reset when the scan is dispatched. After the
  scenario, whose last line is the end marker, the payload still is the message; and
  when a second message follows on the session, the second request holds both.
\<close>

theorem payload_reset_counterexample:
  "map_sum (\<lambda>e. e) (\<lambda>st. map_option payload (sessions st ''s1''))
     (main_loop (service_env (Inl ''connection refused'')) init scenario)
   = Inr (Some ''Subject: hi\<newline>\<newline>body\<newline>'')
   \<and> map_sum (\<lambda>e. e) (\<lambda>st. map req_body (posts (io st)))
       (main_loop (service_env (Inl ''connection refused'')) init
          [connect_line, data_line ''Subject: one'', data_line '''', data_line ''x'',
           data_line ''.'', commit_line,
           data_line ''Subject: two'', data_line '''', data_line ''y'', data_line ''.''])
     = Inr [''Subject: one\<newline>\<newline>x\<newline>'',
            ''Subject: one\<newline>\<newline>x\<newline>Subject: two\<newline>\<newline>y\<newline>'']"
  by code_simp

subsection \<open>After a disconnect\<close>

text \<open>
  Claim C7. A disconnect event removes the session of its identifier. As long as no
  connect event for the identifier follows, the lines after it that carry the identifier
  are no-ops: the run is the run from the state without the session on the input without
  these lines, so they change neither the state nor the output, and they do not fail,
  not even when they have too few fields for their handler or name no registered event,
  for no handler runs on them.
\<close>

theorem disconnect_discards:
  assumes disc: "5 < length (fields_of d)" "fields_of d ! 4 = ''link-disconnect''"
      "fields_of d ! 5 = i"
    and later: "\<forall>l \<in> set ls. \<not> reconnects i l"
  shows "main_loop E st (d # ls)
         = main_loop E (st\<lparr>sessions := (sessions st)(i := None)\<rparr>)
             (filter (\<lambda>l. \<not> later_event i l) ls)"
proof -
  have "step E st d = Inr (st\<lparr>sessions := (sessions st)(i := None)\<rparr>)"
    using disc by (simp add: step_def fields_of_def Let_def)
  then show ?thesis
    using main_loop_skips [OF _ later, of "st\<lparr>sessions := (sessions st)(i := None)\<rparr>" E]
    by simp
qed

theorem disconnect_discards_witness:
  "main_loop (service_env (Inl ''connection refused''))
     \<lparr>sessions = [''s1'' \<mapsto> new_session ''s1''], io = \<lparr>stdout = [], posts = []\<rparr>\<rparr>
     [''report|0.5|0|smtp-in|link-disconnect|s1'', data_line ''.'', commit_line,
      ''report|0.5|0|smtp-in|tx-mail|s1'', ''report|0.5|0|smtp-in|no-such-event|s1'']
   = Inr \<lparr>sessions = [''s1'' \<mapsto> new_session ''s1''](''s1'' := None),
          io = \<lparr>stdout = [], posts = []\<rparr>\<rparr>"
proof -
  let ?d = "''report|0.5|0|smtp-in|link-disconnect|s1''"
  let ?ls = "[data_line ''.'', commit_line,
      ''report|0.5|0|smtp-in|tx-mail|s1'', ''report|0.5|0|smtp-in|no-such-event|s1'']"
  have disc: "5 < length (fields_of ?d)" "fields_of ?d ! 4 = ''link-disconnect''"
      "fields_of ?d ! 5 = ''s1''"
    by (simp_all add: fields_of_def)
  have later: "\<forall>l \<in> set ?ls. \<not> reconnects ''s1'' l"
    by (simp add: reconnects_def fields_of_def data_line_def commit_line_def)
  have skip: "filter (\<lambda>l. \<not> later_event ''s1'' l) ?ls = []"
    by (simp add: later_event_def fields_of_def data_line_def commit_line_def)
  show ?thesis
    using disconnect_discards [OF disc later, of "service_env (Inl ''connection refused'')"
        "\<lparr>sessions = [''s1'' \<mapsto> new_session ''s1''], io = \<lparr>stdout = [], posts = []\<rparr>\<rparr>"]
    unfolding skip by simp
qed

subsection \<open>Malformed lines\<close>

text \<open>
  Claim C8, as amended. A line with fewer than six fields is fatal. A line with at least
  six fields is fatal when it reaches a handler, that is when it is a connect event or
  its identifier has a session and it is no disconnect event, and it has fewer fields
  than the handler indexes or names an event that has no registry entry. The loop then
  ends with the failure, and no line after it is read.
\<close>

theorem protocol_violation_is_fatal:
  assumes "length (fields_of text) \<le> 5
           \<or> (dispatched st text
              \<and> (length (fields_of text) < fields_needed (fields_of text ! 4)
                 \<or> (registry (fields_of text ! 4) :: (string \<times> 'f handler option) option) = None))"
  shows "main_loop (E :: 'f env) st (text # ls)
         = Inl (if length (fields_of text) \<le> 5
                   \<or> length (fields_of text) < fields_needed (fields_of text ! 4)
                then IndexOutOfRange else NilFuncCall)"
proof (cases "length (fields_of text) \<le> 5")
  case True
  then show ?thesis by (simp add: step_def fields_of_def Let_def)
next
  case False
  let ?fs = "fields_of text"
  let ?ev = "?fs ! 4" and ?j = "?fs ! 5"
  from False assms have disp: "dispatched st text"
    and bad: "length ?fs < fields_needed ?ev
              \<or> (registry ?ev :: (string \<times> 'f handler option) option) = None"
    by simp_all
  show ?thesis
  proof (cases "?ev = ''link-connect''")
    case True
    let ?st1 = "st\<lparr>sessions := (sessions st)(?j \<mapsto> new_session ?j)\<rparr>"
    have "sessions ?st1 ?j = Some (new_session ?j)" by simp
    from dispatch_fatal [OF this bad, of E]
    show ?thesis using True False
      by (simp add: step_def fields_of_def Let_def)
  next
    case noconn: False
    with disp obtain s where nodisc: "?ev \<noteq> ''link-disconnect''"
      and s: "sessions st ?j = Some s"
      by (auto simp: dispatched_def)
    from dispatch_fatal [OF s bad, of E]
    show ?thesis using noconn nodisc False
      by (simp add: step_def fields_of_def Let_def)
  qed
qed

theorem protocol_violation_is_fatal_witness:
  "main_loop (service_env (Inl ''connection refused'')) init
     [''report|0.5|0|smtp-in|link-connect|s1|mx.example'', connect_line]
   = Inl IndexOutOfRange
   \<and> main_loop (service_env (Inl ''connection refused''))
       \<lparr>sessions = [''s1'' \<mapsto> new_session ''s1''], io = \<lparr>stdout = [], posts = []\<rparr>\<rparr>
       [''report|0.5|0|smtp-in|no-such-event|s1'', connect_line]
   = Inl NilFuncCall"
proof -
  let ?E = "service_env (Inl ''connection refused'')"
  let ?a = "''report|0.5|0|smtp-in|link-connect|s1|mx.example''"
  let ?b = "''report|0.5|0|smtp-in|no-such-event|s1''"
  let ?st = "\<lparr>sessions = [''s1'' \<mapsto> new_session ''s1''], io = \<lparr>stdout = [], posts = []\<rparr>\<rparr>"
  have fa: "fields_of ?a = [''report'', ''0.5'', ''0'', ''smtp-in'', ''link-connect'', ''s1'', ''mx.example'']"
    by (simp add: fields_of_def)
  have fb: "fields_of ?b = [''report'', ''0.5'', ''0'', ''smtp-in'', ''no-such-event'', ''s1'']"
    by (simp add: fields_of_def)
  have 1: "main_loop ?E init [?a, connect_line] = Inl IndexOutOfRange"
    using protocol_violation_is_fatal [of ?a init ?E "[connect_line]"]
    by (simp add: fa dispatched_def fields_needed_def)
  have 2: "main_loop ?E ?st [?b, connect_line] = Inl NilFuncCall"
    using protocol_violation_is_fatal [of ?b ?st ?E "[connect_line]"]
    by (simp add: fb dispatched_def fields_needed_def registry_def)
  from 1 2 show ?thesis by simp
qed

text \<open>
  The specification makes every such line fatal. A line whose identifier has no session
  is dropped before the registry is looked at: here a mail-from line with six fields and
  a line with an unknown event name are read without a failure, and the connect line
  after them is processed.
\<close>

theorem protocol_violation_counterexample:
  "length (fields_of ''report|0.5|0|smtp-in|tx-mail|s9'') = 6
   \<and> fields_needed ''tx-mail'' = 9
   \<and> map_option fst (registry ''no-such-event'' :: (string \<times> string handler option) option) = None
   \<and> map_sum (\<lambda>e. e) (\<lambda>st. map_option id' (sessions st ''s1''))
        (main_loop (service_env (Inl ''connection refused'')) init
           [''report|0.5|0|smtp-in|tx-mail|s9'', ''report|0.5|0|smtp-in|no-such-event|s9'',
            connect_line])
      = Inr (Some ''s1'')"
  by code_simp

subsection \<open>One value per scan\<close>

text \<open>
  Claim C9. On every path of the goroutine of a scan, whether the request failed, the
  message did not parse or the message was rewritten, the goroutine prints some lines
  and then sends once, as the last thing it does. The end marker leaves exactly that
  send pending on the channel of the session; one receive of the commit handler takes
  its value and prints the decision for it, and the goroutine has finished.
\<close>

theorem single_resolution:
  assumes dot: "7 < length dargs" "dargs ! 7 = ''.''"
    and tok: "6 < length cargs"
  shows "\<exists>pr v s1 w1 s2 w2.
           goroutine E (snd (rspamdPost E (control s) (payload s))) (dargs ! 6) (id' s) (payload s)
             = map Printf pr @ [ChanSend v]
         \<and> sends (goroutine E (snd (rspamdPost E (control s) (payload s))) (dargs ! 6) (id' s)
                    (payload s)) = [v]
         \<and> filterDataLine E s dargs w = Inr (s1, w1)
         \<and> ch s1 = Some [ChanSend v]
         \<and> filterCommit s1 cargs w1 = Inr (s2, w2)
         \<and> ch s2 = Some []
         \<and> stdout w2 = stdout w @ pr
              @ [if v \<noteq> '''' then reject_line (cargs ! 6) (id' s) v
                 else proceed_line (cargs ! 6) (id' s)]"
proof -
  let ?g = "goroutine E (snd (rspamdPost E (control s) (payload s))) (dargs ! 6) (id' s) (payload s)"
  from goroutine_shape obtain pr v where g: "?g = map Printf pr @ [ChanSend v]"
    by blast
  let ?w1 = "\<lparr>stdout = stdout w @ pr,
              posts = posts w @ [fst (rspamdPost E (control s) (payload s))]\<rparr>"
  have 1: "filterDataLine E s dargs w = Inr (s\<lparr>ch := Some [ChanSend v]\<rparr>, ?w1)"
    using dot by (simp add: filterDataLine_def dataOutput_def Let_def g run_goroutine_prints)
  have 2: "filterCommit (s\<lparr>ch := Some [ChanSend v]\<rparr>) cargs ?w1
           = Inr (s\<lparr>ch := Some []\<rparr>,
                  ?w1\<lparr>stdout := stdout ?w1 @
                     [if v \<noteq> '''' then reject_line (cargs ! 6) (id' s) v
                      else proceed_line (cargs ! 6) (id' s)]\<rparr>)"
    using filterCommit_pending [OF tok, of "s\<lparr>ch := Some [ChanSend v]\<rparr>" v ?w1] by simp
  have 3: "sends ?g = [v]"
    by (simp add: g sends_prints)
  show ?thesis
    using g 1 2 3 by (intro exI [of _ pr] exI [of _ v]) auto
qed

theorem single_resolution_witness:
  "\<exists>s1 w1 s2 w2.
     filterDataLine (service_env (Inr (verdict ''reject'' '''')))
       ((new_session ''s1'')\<lparr>payload := ''Subject: hi\<newline>\<newline>body\<newline>''\<rparr>)
       (fields_of (data_line ''.'')) \<lparr>stdout = [], posts = []\<rparr> = Inr (s1, w1)
   \<and> ch s1 = Some [ChanSend ''550 message rejected'']
   \<and> filterCommit s1 (fields_of commit_line) w1 = Inr (s2, w2)
   \<and> ch s2 = Some []"
proof -
  let ?E = "service_env (Inr (verdict ''reject'' ''''))"
  let ?s = "(new_session ''s1'')\<lparr>payload := ''Subject: hi\<newline>\<newline>body\<newline>''\<rparr>"
  let ?w = "\<lparr>stdout = [], posts = []\<rparr>"
  have dot: "7 < length (fields_of (data_line ''.''))" "fields_of (data_line ''.'') ! 7 = ''.''"
    by (simp_all add: fields_of_def data_line_def)
  have tok: "6 < length (fields_of commit_line)"
    by (simp add: fields_of_def commit_line_def)
  from single_resolution [OF dot tok, of ?E ?s ?w]
  obtain pr v s1 w1 s2 w2 where
    g: "goroutine ?E (snd (rspamdPost ?E (control ?s) (payload ?s)))
          (fields_of (data_line ''.'') ! 6) (id' ?s) (payload ?s) = map Printf pr @ [ChanSend v]"
    and r: "filterDataLine ?E ?s (fields_of (data_line ''.'')) ?w = Inr (s1, w1)"
       "ch s1 = Some [ChanSend v]"
       "filterCommit s1 (fields_of commit_line) w1 = Inr (s2, w2)" "ch s2 = Some []"
    by blast
  have "last (goroutine ?E (snd (rspamdPost ?E (control ?s) (payload ?s)))
          (fields_of (data_line ''.'') ! 6) (id' ?s) (payload ?s)) = ChanSend ''550 message rejected''"
    by (simp add: goroutine_def rspamdPost_def service_env_def plain_ReadMessage_def
        header_line_def new_session_def verdict_def switch_Action_def)
  with g have "v = ''550 message rejected''" by simp
  with r show ?thesis by blast
qed

subsection \<open>The origin address of a connection\<close>

text \<open>
  Claim C10. When the address field of a connect event holds a colon, the session that
  the event creates records under \<open>Ip\<close> the text before the first colon and
  nothing more, and it records no \<open>Ip\<close> at all when that text is \<open>local\<close>.
\<close>

theorem connect_records_origin:
  assumes conn: "8 < length (fields_of text)" "fields_of text ! 4 = ''link-connect''"
    and addr: "fields_of text ! 8 = before @ CHR '':'' # rest" "CHR '':'' \<notin> set before"
  shows "\<exists>st' s' c.
           step E st text = Inr st'
         \<and> sessions st' (fields_of text ! 5) = Some s'
         \<and> control s' = Some c
         \<and> c ''Ip'' = (if before = ''local'' then None else Some before)"
proof -
  have sp: "strings_Split (fields_of text ! 8) CHR '':'' = before # strings_Split rest CHR '':''"
    using addr by (simp add: strings_Split_before)
  have len: "\<not> length (strings_Split text CHR ''|'') \<le> 5" "\<not> length (strings_Split text CHR ''|'') \<le> 8"
    using conn by (simp_all add: fields_of_def)
  show ?thesis
    using conn(2) sp len
    by (simp add: step_def dispatch_def registry_fn_simps report_fn_def linkConnect_def
        new_session_def Let_def fields_of_def)
qed

theorem connect_records_origin_witness:
  "\<exists>st' s' c.
     step (service_env (Inl ''connection refused'')) init
       ''report|0.5|0|smtp-in|link-connect|s1|mx.example|pass|2001:db8::1|192.0.2.9:3025'' = Inr st'
   \<and> sessions st' ''s1'' = Some s'
   \<and> control s' = Some c
   \<and> c ''Ip'' = Some ''2001''"
proof -
  let ?text = "''report|0.5|0|smtp-in|link-connect|s1|mx.example|pass|2001:db8::1|192.0.2.9:3025''"
  have fs: "fields_of ?text = [''report'', ''0.5'', ''0'', ''smtp-in'', ''link-connect'', ''s1'',
              ''mx.example'', ''pass'', ''2001:db8::1'', ''192.0.2.9:3025'']"
    by (simp add: fields_of_def)
  have conn: "8 < length (fields_of ?text)" "fields_of ?text ! 4 = ''link-connect''"
    by (simp_all add: fs)
  have addr: "fields_of ?text ! 8 = ''2001'' @ CHR '':'' # ''db8::1''" "CHR '':'' \<notin> set ''2001''"
    by (simp_all add: fs)
  show ?thesis
    using connect_records_origin [OF conn addr, of "service_env (Inl ''connection refused'')" init]
    by (simp add: fs)
qed

end
